theory Spec2Isabelle
  imports Main "HOL-Library.Sublist"
begin

section \<open>The withdraw-proof script: external invocations and the proof flattener\<close>

text \<open>
  The development embeds \<^verbatim>\<open>script/generateWithdrawProof.py\<close>. The script builds two
  shell command lines from the artefact directory, runs them one after the other with
  \<^verbatim>\<open>subprocess.call(cmd, shell=True)\<close>, opens \<^verbatim>\<open>proof.json\<close> in text mode,
  filters and cleans its lines and prints the result.

  Python strings are modelled as \<^typ>\<open>string\<close>; the characters the script names are
  \<^term>\<open>CHR 0x20\<close> (space, \<^verbatim>\<open>chr(32)\<close>), \<^term>\<open>CHR 0x2C\<close> (comma),
  \<^term>\<open>CHR 0x0D\<close> (carriage return), \<^term>\<open>CHR 0x0A\<close> (line feed),
  \<^term>\<open>CHR 0x09\<close> (tab) and \<^term>\<open>CHR 0x22\<close> (double quote).
\<close>

subsection \<open>Library operations the script calls\<close>

text \<open>
  \<^verbatim>\<open>s.replace(old, new)\<close>: every non-overlapping occurrence of \<open>old\<close>, found
  scanning from the left, is replaced by \<open>new\<close>. For an empty \<open>old\<close> Python puts
  \<open>new\<close> before every character and at the end.
\<close>

fun replace :: "string \<Rightarrow> string \<Rightarrow> string \<Rightarrow> string" where
  "replace s [] new = new @ concat (map (\<lambda>c. c # new) s)"
| "replace [] (a # old) new = []"
| "replace (c # s) (a # old) new =
     (if prefix (a # old) (c # s)
      then new @ replace (drop (length old) s) (a # old) new
      else c # replace s (a # old) new)"

text \<open>
  A file opened with \<^verbatim>\<open>open(path)\<close> is read in text mode with universal newlines:
  \<^verbatim>\<open>\r\n\<close> and a lone \<^verbatim>\<open>\r\<close> reach the program as \<^verbatim>\<open>\n\<close>.
\<close>

fun universal_newlines :: "string \<Rightarrow> string" where
  "universal_newlines [] = []"
| "universal_newlines [c] = (if c = CHR 0x0D then [CHR 0x0A] else [c])"
| "universal_newlines (c # d # s) =
     (if c = CHR 0x0D \<and> d = CHR 0x0A then CHR 0x0A # universal_newlines s
      else if c = CHR 0x0D then CHR 0x0A # universal_newlines (d # s)
      else c # universal_newlines (d # s))"

text \<open>
  Iterating over the file yields its lines in order, each with its terminating line
  feed; only the last line can lack one.
\<close>

fun split_keepends :: "string \<Rightarrow> string list" where
  "split_keepends [] = []"
| "split_keepends (c # s) =
     (if c = CHR 0x0A then [c] # split_keepends s
      else (case split_keepends s of
              [] \<Rightarrow> [[c]]
            | l # ls \<Rightarrow> (c # l) # ls))"

definition file_lines :: "string \<Rightarrow> string list" where
  "file_lines content = split_keepends (universal_newlines content)"

subsection \<open>The environment: file system, external processes, observable events\<close>

type_synonym filesystem = "string \<rightharpoonup> string"

record process_result =
  exit_code :: int
  child_stdout :: string
  files_after :: filesystem

text \<open>
  What running a command line does is not the script's business: a shell is any function
  from the command line and the current files to the result of the process, \<open>None\<close>
  when the process never exits.
\<close>

type_synonym shell = "string \<Rightarrow> filesystem \<Rightarrow> process_result option"

datatype fault = FileNotFoundError string

datatype outcome = Returned | Raised fault | Blocked

datatype event =
    Spawn string
  | ChildOutput string
  | Exited int
  | OpenFile string
  | Print string

text \<open>
  \<^verbatim>\<open>subprocess.call(cmd, shell=True)\<close> starts the process, which inherits the
  script's standard output, waits for it to exit and returns its exit code.
\<close>

definition subprocess_call ::
  "shell \<Rightarrow> string \<Rightarrow> filesystem \<Rightarrow> event list \<times> (int \<times> filesystem) option" where
  "subprocess_call sh cmd fs =
     (case sh cmd fs of
        None \<Rightarrow> ([Spawn cmd], None)
      | Some r \<Rightarrow>
          ([Spawn cmd, ChildOutput (child_stdout r), Exited (exit_code r)],
           Some (exit_code r, files_after r)))"

definition open_file :: "filesystem \<Rightarrow> string \<Rightarrow> fault + string" where
  "open_file fs path =
     (case fs path of
        None \<Rightarrow> Inl (FileNotFoundError path)
      | Some content \<Rightarrow> Inr content)"

subsection \<open>generateProof\<close>

definition generateWitnessCmd :: "string \<Rightarrow> string" where
  "generateWitnessCmd artefactPath =
     ''node '' @ artefactPath @ ''/generate_witness.js '' @ artefactPath @ ''/withdraw.wasm ''
       @ artefactPath @ ''/input.json '' @ artefactPath @ ''/witness.wtns''"

definition generateProofCmd :: "string \<Rightarrow> string" where
  "generateProofCmd artefactPath =
     ''snarkjs groth16 prove  '' @ artefactPath @ ''/final.zkey  '' @ artefactPath
       @ ''/witness.wtns  '' @ artefactPath @ ''/proof.json  '' @ artefactPath @ ''/public.json''"

definition clean_item :: "string \<Rightarrow> string" where
  "clean_item item =
     replace (replace (replace (replace (replace item '' '' []) '','' [])
       [CHR 0x0D, CHR 0x0A] []) [CHR 0x09] []) [CHR 0x22] []"

fun flatten_loop :: "string \<Rightarrow> string list \<Rightarrow> string" where
  "flatten_loop respStr [] = respStr"
| "flatten_loop respStr (item # items) =
     flatten_loop (if length item > 25 then respStr @ clean_item item @ '','' else respStr) items"

definition flatten_lines :: "string list \<Rightarrow> string" where
  "flatten_lines items = replace (flatten_loop [] items) [CHR 0x20] []"

definition generateProof :: "shell \<Rightarrow> filesystem \<Rightarrow> string \<Rightarrow> event list \<times> outcome" where
  "generateProof sh fs artefactPath =
     (case subprocess_call sh (generateWitnessCmd artefactPath) fs of
        (t1, None) \<Rightarrow> (t1, Blocked)
      | (t1, Some (witnessGenerateResp, fs1)) \<Rightarrow>
          (case subprocess_call sh (generateProofCmd artefactPath) fs1 of
             (t2, None) \<Rightarrow> (t1 @ t2, Blocked)
           | (t2, Some (proofGenerateResp, fs2)) \<Rightarrow>
               (case open_file fs2 (artefactPath @ ''/proof.json'') of
                  Inl e \<Rightarrow> (t1 @ t2 @ [OpenFile (artefactPath @ ''/proof.json'')], Raised e)
                | Inr content \<Rightarrow>
                    (t1 @ t2 @ [OpenFile (artefactPath @ ''/proof.json''),
                                Print (flatten_lines (file_lines content))],
                     Returned))))"

text \<open>
  The name \<^verbatim>\<open>file_path\<close> the script computes with \<^verbatim>\<open>os.path.dirname\<close> is never
  read, so it has no counterpart here. \<^verbatim>\<open>main\<close> hands the one positional argument of
  the command line to \<^verbatim>\<open>generateProof\<close> and does nothing else. An uncaught exception ends the interpreter with
  status 1, a normal return with status 0; a script blocked on a child has no status.
\<close>

fun program_exit_status :: "outcome \<Rightarrow> int option" where
  "program_exit_status Returned = Some 0"
| "program_exit_status (Raised e) = Some 1"
| "program_exit_status Blocked = None"

subsection \<open>Reading a run\<close>

fun printed :: "event list \<Rightarrow> string list" where
  "printed [] = []"
| "printed (Print s # es) = s # printed es"
| "printed (e # es) = printed es"


fun exit_codes :: "event list \<Rightarrow> int list" where
  "exit_codes [] = []"
| "exit_codes (Exited k # es) = k # exit_codes es"
| "exit_codes (e # es) = exit_codes es"

text \<open>
  Standard output is shared by the script and its children: \<^verbatim>\<open>print\<close> writes its
  argument and a line feed, a child writes whatever it writes.
\<close>

fun stdout_of :: "event list \<Rightarrow> string" where
  "stdout_of [] = []"
| "stdout_of (Print s # es) = s @ [CHR 0x0A] @ stdout_of es"
| "stdout_of (ChildOutput s # es) = s @ stdout_of es"
| "stdout_of (e # es) = stdout_of es"


text \<open>The same shell, with the exit code of every process replaced.\<close>

definition with_exit_codes :: "(string \<Rightarrow> filesystem \<Rightarrow> int) \<Rightarrow> shell \<Rightarrow> shell" where
  "with_exit_codes code sh =
     (\<lambda>cmd fs. map_option (\<lambda>r. r\<lparr>exit_code := code cmd fs\<rparr>) (sh cmd fs))"

subsection \<open>The flattener as the specification words it\<close>

text \<open>
  Section 4.3 of the specification: from each line longer than 25 characters all spaces,
  all commas, all carriage-return/line-feed sequences, all tabs and all double quotes
  are stripped, in this order; the cleaned line and a comma are appended to the output;
  at the end the remaining spaces are removed.
\<close>

definition strip_char :: "char \<Rightarrow> string \<Rightarrow> string" where
  "strip_char c s = filter (\<lambda>x. x \<noteq> c) s"

fun strip_crlf :: "string \<Rightarrow> string" where
  "strip_crlf [] = []"
| "strip_crlf [c] = [c]"
| "strip_crlf (c # d # s) =
     (if c = CHR 0x0D \<and> d = CHR 0x0A then strip_crlf s else c # strip_crlf (d # s))"

definition cleaned_line :: "string \<Rightarrow> string" where
  "cleaned_line l =
     strip_char (CHR 0x22) (strip_char (CHR 0x09) (strip_crlf
       (strip_char (CHR 0x2C) (strip_char (CHR 0x20) l))))"

definition flattened_proof_string :: "string list \<Rightarrow> string" where
  "flattened_proof_string ls =
     strip_char (CHR 0x20)
       (concat (map (\<lambda>l. cleaned_line l @ '','') (filter (\<lambda>l. 25 < length l) ls)))"

subsection \<open>Sample environments and documents\<close>

text \<open>
  Three shells: one whose processes all succeed silently and touch no file, one whose
  processes all fail with status 127 (the command is not installed), and one whose
  processes never exit.
\<close>

definition quiet_shell :: shell where
  "quiet_shell = (\<lambda>cmd fs. Some \<lparr>exit_code = 0, child_stdout = [], files_after = fs\<rparr>)"

definition failing_shell :: shell where
  "failing_shell = (\<lambda>cmd fs. Some \<lparr>exit_code = 127, child_stdout = [], files_after = fs\<rparr>)"


definition quoted :: "string \<Rightarrow> string" where
  "quoted s = [CHR 0x22] @ s @ [CHR 0x22]"

text \<open>A text file holding the given lines, each ended by the terminator \<open>eol\<close>.\<close>

definition text_file :: "string \<Rightarrow> string list \<Rightarrow> string" where
  "text_file eol ls = concat (map (\<lambda>l. l @ eol) ls)"

text \<open>The four lines of the end-to-end scenario of the specification.\<close>

definition scenario_lines :: "string list" where
  "scenario_lines =
     [''  '' @ quoted ''pi_a'' @ '': ['',
      ''    '' @ quoted ''1234567890123456789012345'' @ '','',
      ''    '' @ quoted ''2'',
      ''  ],'']"

text \<open>
  A proof document in the layout the prover writes (one space of indentation per level,
  one array element per line, line feeds), cut down to one array.
\<close>

definition sample_proof_lines :: "string list" where
  "sample_proof_lines =
     [''{'',
      '' '' @ quoted ''pi_a'' @ '': ['',
      ''  '' @ quoted ''111111111122222222223333333333'' @ '','',
      ''  '' @ quoted ''444444444455555555556666666666'' @ '','',
      ''  '' @ quoted ''1'',
      '' ],'',
      '' '' @ quoted ''protocol'' @ '': '' @ quoted ''groth16'',
      ''}'']"

text \<open>
  Artefact directories at \<^verbatim>\<open>/a\<close>: one with no file at all, and one for each document
  written with line feeds (the scenario also with carriage return and line feed; there is
  a document of short lines only and one of a single line of 25 digits), already in
  place as \<^verbatim>\<open>proof.json\<close>.
\<close>

definition empty_directory :: filesystem where
  "empty_directory = Map.empty"

definition scenario_directory :: filesystem where
  "scenario_directory = [''/a/proof.json'' \<mapsto> text_file [CHR 0x0A] scenario_lines]"

definition scenario_directory_crlf :: filesystem where
  "scenario_directory_crlf =
     [''/a/proof.json'' \<mapsto> text_file [CHR 0x0D, CHR 0x0A] scenario_lines]"

definition boundary_directory :: filesystem where
  "boundary_directory =
     [''/a/proof.json'' \<mapsto> text_file [CHR 0x0A] [''1234567890123456789012345'']]"

definition short_directory :: filesystem where
  "short_directory =
     [''/a/proof.json'' \<mapsto>
        text_file [CHR 0x0A] [''{'', '' '' @ quoted ''protocol'' @ '': '' @ quoted ''groth16'', ''}'']]"

definition sample_directory :: filesystem where
  "sample_directory = [''/a/proof.json'' \<mapsto> text_file [CHR 0x0A] sample_proof_lines]"

section \<open>Properties\<close>

subsection \<open>Library operations\<close>

lemma replace_single_char: "replace s [c] [] = filter (\<lambda>x. x \<noteq> c) s"
  by (induction s) auto

lemma replace_crlf: "replace s [CHR 0x0D, CHR 0x0A] [] = strip_crlf s"
  by (induction s rule: strip_crlf.induct) auto

lemma set_strip_crlf: "set (strip_crlf s) \<subseteq> set s"
  by (induction s rule: strip_crlf.induct) auto

lemma strip_crlf_no_cr: "CHR 0x0D \<notin> set s \<Longrightarrow> strip_crlf s = s"
  by (induction s rule: strip_crlf.induct) auto

lemma universal_newlines_no_cr: "CHR 0x0D \<notin> set (universal_newlines s)"
  by (induction s rule: universal_newlines.induct) auto

lemma concat_split_keepends: "concat (split_keepends s) = s"
  by (induction s) (auto split: list.splits)

text \<open>Every line but the last ends with its line feed.\<close>

lemma split_keepends_terminated:
  "split_keepends s = l # l' # ls \<Longrightarrow> l \<noteq> [] \<and> last l = CHR 0x0A"
proof (induction s arbitrary: l l' ls)
  case Nil
  then show ?case by simp
next
  case (Cons c s)
  show ?case
  proof (cases "c = CHR 0x0A")
    case True
    with Cons.prems show ?thesis by auto
  next
    case False
    with Cons.prems obtain m where m: "split_keepends s = m # l' # ls" "l = c # m"
      by (auto split: list.splits)
    from Cons.IH[OF m(1)] m(2) show ?thesis by simp
  qed
qed

text \<open>No line the file iteration yields holds a carriage return.\<close>

lemma file_lines_no_cr:
  assumes "l \<in> set (file_lines content)"
  shows "CHR 0x0D \<notin> set l"
proof -
  have "set l \<subseteq> set (concat (file_lines content))"
    using assms by auto
  then show ?thesis
    using universal_newlines_no_cr[of content]
    by (auto simp: file_lines_def concat_split_keepends)
qed

subsection \<open>The loop of the flattener\<close>

lemma clean_item_spec: "clean_item item = cleaned_line item"
  by (simp add: clean_item_def cleaned_line_def strip_char_def replace_single_char replace_crlf)

lemma flatten_loop_concat:
  "flatten_loop respStr items =
     respStr @ concat (map (\<lambda>l. clean_item l @ '','') (filter (\<lambda>l. 25 < length l) items))"
  by (induction items arbitrary: respStr) auto

lemma flatten_lines_spec: "flatten_lines items = flattened_proof_string items"
  by (simp add: flatten_lines_def flattened_proof_string_def flatten_loop_concat
      clean_item_spec strip_char_def replace_single_char)

lemma space_notin_clean_item: "CHR 0x20 \<notin> set (clean_item item)"
proof -
  have "set (clean_item item) \<subseteq> set (filter (\<lambda>x. x \<noteq> CHR 0x20) item)"
    using set_strip_crlf[of "filter (\<lambda>x. x \<noteq> CHR 0x2C) (filter (\<lambda>x. x \<noteq> CHR 0x20) item)"]
    by (auto simp: clean_item_spec cleaned_line_def strip_char_def)
  then show ?thesis by auto
qed

lemma flatten_lines_append:
  "flatten_lines (xs @ ys) = flatten_lines xs @ flatten_lines ys"
  by (simp add: flatten_lines_def flatten_loop_concat replace_single_char)

lemma flatten_lines_single:
  "flatten_lines [l] = (if 25 < length l then clean_item l @ '','' else [])"
  using space_notin_clean_item[of l]
  by (auto simp add: flatten_lines_def flatten_loop_concat replace_single_char filter_id_conv)

text \<open>
  On a line of a file the replacement of \<^verbatim>\<open>\r\n\<close> finds nothing: cleaning removes
  spaces, commas, tabs and double quotes, and the line feed that ends the line stays.
\<close>

lemma clean_item_file_line:
  assumes "l \<in> set (file_lines content)"
  shows "clean_item l = filter (\<lambda>c. c \<notin> {CHR 0x20, CHR 0x2C, CHR 0x09, CHR 0x22}) l"
proof -
  have "CHR 0x0D \<notin> set (filter (\<lambda>x. x \<noteq> CHR 0x2C) (filter (\<lambda>x. x \<noteq> CHR 0x20) l))"
    using file_lines_no_cr[OF assms] by simp
  then show ?thesis
    by (simp add: clean_item_spec cleaned_line_def strip_char_def strip_crlf_no_cr
        conj_commute conj_left_commute)
qed

subsection \<open>The three shapes of a run\<close>

lemma generateProof_blocked_first:
  assumes "sh (generateWitnessCmd p) fs = None"
  shows "generateProof sh fs p = ([Spawn (generateWitnessCmd p)], Blocked)"
  using assms by (simp add: generateProof_def subprocess_call_def)

lemma generateProof_blocked_second:
  assumes "sh (generateWitnessCmd p) fs = Some r1"
    and "sh (generateProofCmd p) (files_after r1) = None"
  shows "generateProof sh fs p =
    ([Spawn (generateWitnessCmd p), ChildOutput (child_stdout r1), Exited (exit_code r1),
      Spawn (generateProofCmd p)], Blocked)"
  using assms by (simp add: generateProof_def subprocess_call_def)

lemma generateProof_run:
  assumes "sh (generateWitnessCmd p) fs = Some r1"
    and "sh (generateProofCmd p) (files_after r1) = Some r2"
  shows "generateProof sh fs p =
    (case files_after r2 (p @ ''/proof.json'') of
       None \<Rightarrow>
         ([Spawn (generateWitnessCmd p), ChildOutput (child_stdout r1), Exited (exit_code r1),
           Spawn (generateProofCmd p), ChildOutput (child_stdout r2), Exited (exit_code r2),
           OpenFile (p @ ''/proof.json'')],
          Raised (FileNotFoundError (p @ ''/proof.json'')))
     | Some content \<Rightarrow>
         ([Spawn (generateWitnessCmd p), ChildOutput (child_stdout r1), Exited (exit_code r1),
           Spawn (generateProofCmd p), ChildOutput (child_stdout r2), Exited (exit_code r2),
           OpenFile (p @ ''/proof.json''), Print (flatten_lines (file_lines content))],
          Returned))"
  using assms
  by (simp add: generateProof_def subprocess_call_def open_file_def split: option.splits)

lemma generateProof_cases:
  obtains (first_hangs) "sh (generateWitnessCmd p) fs = None"
  | (second_hangs) r1 where "sh (generateWitnessCmd p) fs = Some r1"
      "sh (generateProofCmd p) (files_after r1) = None"
  | (both_exit) r1 r2 where "sh (generateWitnessCmd p) fs = Some r1"
      "sh (generateProofCmd p) (files_after r1) = Some r2"
  by (cases "sh (generateWitnessCmd p) fs";
      cases "sh (generateProofCmd p) (files_after (the (sh (generateWitnessCmd p) fs)))"; simp)

lemma with_exit_codes_Some:
  "sh cmd fs = Some r \<Longrightarrow>
     with_exit_codes code sh cmd fs = Some (r\<lparr>exit_code := code cmd fs\<rparr>)"
  by (simp add: with_exit_codes_def)

subsection \<open>The sample documents\<close>

lemma scenario_file_lines:
  "file_lines (text_file [CHR 0x0A] scenario_lines) = map (\<lambda>l. l @ [CHR 0x0A]) scenario_lines"
  by (simp add: text_file_def scenario_lines_def quoted_def file_lines_def)

lemma scenario_file_lines_crlf:
  "file_lines (text_file [CHR 0x0D, CHR 0x0A] scenario_lines) =
     map (\<lambda>l. l @ [CHR 0x0A]) scenario_lines"
  by (simp add: text_file_def scenario_lines_def quoted_def file_lines_def)

lemma scenario_file_lines_cr:
  "file_lines (text_file [CHR 0x0D] scenario_lines) = map (\<lambda>l. l @ [CHR 0x0A]) scenario_lines"
  by (simp add: text_file_def scenario_lines_def quoted_def file_lines_def)

lemma scenario_flattened:
  "flatten_lines (map (\<lambda>l. l @ [CHR 0x0A]) scenario_lines) =
     ''1234567890123456789012345'' @ [CHR 0x0A] @ '',''"
  by (simp add: scenario_lines_def quoted_def flatten_lines_def clean_item_def)

text \<open>
  The four lines of the scenario are the lines of no file as they stand: the first three
  would each need their line feed. Had the iteration yielded them without it, the output
  would be the token and a comma.
\<close>

lemma file_lines_not_verbatim: "file_lines content \<noteq> scenario_lines"
proof
  assume "file_lines content = scenario_lines"
  then have "split_keepends (universal_newlines content) =
      (''  '' @ quoted ''pi_a'' @ '': ['') #
      (''    '' @ quoted ''1234567890123456789012345'' @ '','') #
      [''    '' @ quoted ''2'', ''  ],'']"
    by (simp add: file_lines_def scenario_lines_def)
  from split_keepends_terminated[OF this] show False
    by (simp add: quoted_def)
qed

lemma scenario_lines_verbatim: "flatten_lines scenario_lines = ''1234567890123456789012345,''"
  by (simp add: scenario_lines_def quoted_def flatten_lines_def clean_item_def)

lemma sample_flattened:
  "flatten_lines (file_lines (text_file [CHR 0x0A] sample_proof_lines)) =
     ''111111111122222222223333333333'' @ [CHR 0x0A] @ '','' @
     ''444444444455555555556666666666'' @ [CHR 0x0A] @ '',''"
proof -
  have "file_lines (text_file [CHR 0x0A] sample_proof_lines) =
      map (\<lambda>l. l @ [CHR 0x0A]) sample_proof_lines"
    by (simp add: text_file_def sample_proof_lines_def quoted_def file_lines_def)
  then show ?thesis
    by (simp add: sample_proof_lines_def quoted_def flatten_lines_def clean_item_def)
qed

subsection \<open>The claims\<close>

text \<open>
  Claim C1, evaluated on the scenario document written with a carriage return and a line
  feed at the end of every line. Stripping spaces, commas, carriage-return/line-feed
  sequences, tabs and double quotes from the lines of that document, as the
  specification words the flattener, leaves the token and a comma. The script prints
  the token, a line feed and a comma: the text-mode read has turned each line end into
  a lone line feed before the replacement of \<^verbatim>\<open>\r\n\<close> is tried, so that
  replacement removes nothing.
\<close>

theorem crlf_document_output:
  "printed (fst (generateProof quiet_shell scenario_directory_crlf ''/a'')) =
     [''1234567890123456789012345'' @ [CHR 0x0A] @ '','']
   \<and> text_file [CHR 0x0D, CHR 0x0A] scenario_lines =
       concat (map (\<lambda>l. l @ [CHR 0x0D, CHR 0x0A]) scenario_lines)
   \<and> flattened_proof_string (map (\<lambda>l. l @ [CHR 0x0D, CHR 0x0A]) scenario_lines) =
       ''1234567890123456789012345,''
   \<and> file_lines (text_file [CHR 0x0D, CHR 0x0A] scenario_lines) =
       map (\<lambda>l. l @ [CHR 0x0A]) scenario_lines"
proof -
  have "flattened_proof_string (map (\<lambda>l. l @ [CHR 0x0D, CHR 0x0A]) scenario_lines) =
      ''1234567890123456789012345,''"
    by (simp add: scenario_lines_def quoted_def flattened_proof_string_def cleaned_line_def
        strip_char_def)
  moreover have "text_file [CHR 0x0D, CHR 0x0A] scenario_lines =
      concat (map (\<lambda>l. l @ [CHR 0x0D, CHR 0x0A]) scenario_lines)"
    by (simp add: text_file_def)
  moreover have "printed (fst (generateProof quiet_shell scenario_directory_crlf ''/a'')) =
      [''1234567890123456789012345'' @ [CHR 0x0A] @ '','']"
    by (simp add: generateProof_def subprocess_call_def open_file_def quiet_shell_def
        scenario_directory_crlf_def scenario_file_lines_crlf scenario_flattened)
  ultimately show ?thesis
    using scenario_file_lines_crlf by simp
qed

text \<open>
  Claim C2, evaluated on a proof document in the prover's layout: the script prints each
  of the two tokens with the line feed of its line still attached, so the output is not
  the tokens joined by commas.
\<close>

theorem sample_proof_output:
  "printed (fst (generateProof quiet_shell sample_directory ''/a'')) =
     [''111111111122222222223333333333'' @ [CHR 0x0A] @ '','' @
      ''444444444455555555556666666666'' @ [CHR 0x0A] @ '','']
   \<and> ''111111111122222222223333333333'' @ [CHR 0x0A] @ '','' @
      ''444444444455555555556666666666'' @ [CHR 0x0A] @ '',''
     \<noteq> ''111111111122222222223333333333,444444444455555555556666666666,''"
  by (simp add: generateProof_def subprocess_call_def open_file_def quiet_shell_def
      sample_directory_def sample_flattened)



text \<open>
  Claim C4. When both processes exit, with whatever codes, the two codes are recorded
  in order and the script goes on to open \<^verbatim>\<open>proof.json\<close>; replacing the exit codes
  by any others changes neither how the run ends nor what it prints; and the exit status
  of the script is 1 exactly when \<^verbatim>\<open>proof.json\<close> is missing and 0 otherwise, so
  no exit code of a child makes it non-zero.
\<close>

theorem exit_codes_ignored:
  assumes "sh (generateWitnessCmd p) fs = Some r1"
    and "sh (generateProofCmd p) (files_after r1) = Some r2"
  shows "exit_codes (fst (generateProof sh fs p)) = [exit_code r1, exit_code r2]
       \<and> OpenFile (p @ ''/proof.json'') \<in> set (fst (generateProof sh fs p))
       \<and> snd (generateProof (with_exit_codes code sh) fs p) = snd (generateProof sh fs p)
       \<and> printed (fst (generateProof (with_exit_codes code sh) fs p))
           = printed (fst (generateProof sh fs p))
       \<and> program_exit_status (snd (generateProof sh fs p))
           = (if files_after r2 (p @ ''/proof.json'') = None then Some 1 else Some 0)"
proof -
  have a: "with_exit_codes code sh (generateWitnessCmd p) fs
      = Some (r1\<lparr>exit_code := code (generateWitnessCmd p) fs\<rparr>)"
    using assms(1) by (rule with_exit_codes_Some)
  have b: "with_exit_codes code sh (generateProofCmd p)
        (files_after (r1\<lparr>exit_code := code (generateWitnessCmd p) fs\<rparr>))
      = Some (r2\<lparr>exit_code := code (generateProofCmd p) (files_after r1)\<rparr>)"
    using assms(2) by (simp add: with_exit_codes_Some)
  show ?thesis
    by (simp add: generateProof_run[OF assms] generateProof_run[OF a b] split: option.splits)
qed

theorem exit_codes_ignored_witness:
  "failing_shell (generateWitnessCmd ''/a'') scenario_directory
     = Some \<lparr>exit_code = 127, child_stdout = [], files_after = scenario_directory\<rparr>
   \<and> failing_shell (generateProofCmd ''/a'') scenario_directory
     = Some \<lparr>exit_code = 127, child_stdout = [], files_after = scenario_directory\<rparr>
   \<and> exit_codes (fst (generateProof failing_shell scenario_directory ''/a'')) = [127, 127]
   \<and> OpenFile ''/a/proof.json'' \<in> set (fst (generateProof failing_shell scenario_directory ''/a''))
   \<and> snd (generateProof (with_exit_codes (\<lambda>cmd fs. 0) failing_shell) scenario_directory ''/a'')
       = snd (generateProof failing_shell scenario_directory ''/a'')
   \<and> program_exit_status (snd (generateProof failing_shell scenario_directory ''/a'')) = Some 0"
proof -
  let ?r = "\<lparr>exit_code = 127, child_stdout = [], files_after = scenario_directory\<rparr>"
  have a: "failing_shell (generateWitnessCmd ''/a'') scenario_directory = Some ?r"
    by (simp add: failing_shell_def)
  have b: "failing_shell (generateProofCmd ''/a'') (files_after ?r) = Some ?r"
    by (simp add: failing_shell_def)
  have c: "files_after ?r (''/a'' @ ''/proof.json'') \<noteq> None"
    by (simp add: scenario_directory_def)
  show ?thesis
    using exit_codes_ignored[OF a b, of "\<lambda>cmd fs. 0"] a b c by simp
qed

text \<open>
  Claim C5. When both processes have exited and the artefact directory holds no
  \<^verbatim>\<open>proof.json\<close> at that moment, the run ends in the uncaught
  \<^verbatim>\<open>FileNotFoundError\<close> of the open, the script has printed nothing, and its exit
  status is 1.
\<close>

theorem missing_proof_document:
  assumes "sh (generateWitnessCmd p) fs = Some r1"
    and "sh (generateProofCmd p) (files_after r1) = Some r2"
    and "files_after r2 (p @ ''/proof.json'') = None"
  shows "snd (generateProof sh fs p) = Raised (FileNotFoundError (p @ ''/proof.json''))
       \<and> printed (fst (generateProof sh fs p)) = []
       \<and> program_exit_status (snd (generateProof sh fs p)) = Some 1"
  using assms by (simp add: generateProof_run)

theorem missing_proof_document_witness:
  "failing_shell (generateWitnessCmd ''/a'') empty_directory
     = Some \<lparr>exit_code = 127, child_stdout = [], files_after = empty_directory\<rparr>
   \<and> failing_shell (generateProofCmd ''/a'') empty_directory
     = Some \<lparr>exit_code = 127, child_stdout = [], files_after = empty_directory\<rparr>
   \<and> empty_directory ''/a/proof.json'' = None
   \<and> snd (generateProof failing_shell empty_directory ''/a'')
       = Raised (FileNotFoundError ''/a/proof.json'')
   \<and> printed (fst (generateProof failing_shell empty_directory ''/a'')) = []
   \<and> program_exit_status (snd (generateProof failing_shell empty_directory ''/a'')) = Some 1"
proof -
  let ?r = "\<lparr>exit_code = 127, child_stdout = [], files_after = empty_directory\<rparr>"
  have a: "failing_shell (generateWitnessCmd ''/a'') empty_directory = Some ?r"
    by (simp add: failing_shell_def)
  have b: "failing_shell (generateProofCmd ''/a'') (files_after ?r) = Some ?r"
    by (simp add: failing_shell_def)
  have c: "files_after ?r (''/a'' @ ''/proof.json'') = None"
    by (simp add: empty_directory_def)
  show ?thesis
    using missing_proof_document[OF a b c] a b c by simp
qed

text \<open>
  Claim C6, as it stands, fails. A document whose one line has exactly 25 characters and
  ends with a line feed has that line in the output; and a line of 24 characters that
  takes 26 characters in the file, with its carriage return and line feed, is left out.
\<close>

theorem threshold_counterexample:
  "length ''1234567890123456789012345'' = 25
   \<and> printed (fst (generateProof quiet_shell boundary_directory ''/a'')) =
       [''1234567890123456789012345'' @ [CHR 0x0A] @ '','']
   \<and> length (''123456789012345678901234'' @ [CHR 0x0D, CHR 0x0A]) = 26
   \<and> flatten_lines (file_lines (''123456789012345678901234'' @ [CHR 0x0D, CHR 0x0A])) = []"
  by (simp add: generateProof_def subprocess_call_def open_file_def quiet_shell_def
      boundary_directory_def text_file_def file_lines_def flatten_lines_def clean_item_def)

text \<open>
  Claim C6, amended. The length the script tests is that of the line as the file
  iteration yields it, the line feed that ends it counted as one character. In any
  document, a line of that length 25 leaves the output as it is without the line, and a
  line of that length 26 puts its cleaned text and a comma in the output, between what
  the earlier and the later lines put there.
\<close>

theorem threshold_boundary:
  assumes "file_lines content = xs @ l # ys"
  shows "(length l = 25 \<longrightarrow>
            flatten_lines (file_lines content) = flatten_lines (xs @ ys))
       \<and> (length l = 26 \<longrightarrow>
            flatten_lines (file_lines content) =
              flatten_lines xs @ clean_item l @ '','' @ flatten_lines ys)"
proof -
  have "flatten_lines (file_lines content) =
      flatten_lines xs @ flatten_lines [l] @ flatten_lines ys"
    using assms flatten_lines_append[of xs "[l] @ ys"] flatten_lines_append[of "[l]" ys]
    by simp
  then show ?thesis
    by (simp add: flatten_lines_single flatten_lines_append)
qed

theorem threshold_boundary_witness:
  "file_lines (text_file [CHR 0x0A] [''123456789012345678901234'', ''12345678901234567890123456''])
     = [] @ (''123456789012345678901234'' @ [CHR 0x0A]) # [''12345678901234567890123456'' @ [CHR 0x0A]]
   \<and> length (''123456789012345678901234'' @ [CHR 0x0A]) = 25
   \<and> flatten_lines (file_lines
         (text_file [CHR 0x0A] [''123456789012345678901234'', ''12345678901234567890123456'']))
     = flatten_lines [''12345678901234567890123456'' @ [CHR 0x0A]]
   \<and> length ''12345678901234567890123456'' = 26
   \<and> file_lines ''12345678901234567890123456'' = [] @ ''12345678901234567890123456'' # []
   \<and> flatten_lines (file_lines ''12345678901234567890123456'') = ''12345678901234567890123456,''"
proof -
  let ?doc = "text_file [CHR 0x0A] [''123456789012345678901234'', ''12345678901234567890123456'']"
  have a: "file_lines ?doc
     = [] @ (''123456789012345678901234'' @ [CHR 0x0A]) # [''12345678901234567890123456'' @ [CHR 0x0A]]"
    by (simp add: file_lines_def text_file_def)
  have b: "file_lines ''12345678901234567890123456'' = [] @ ''12345678901234567890123456'' # []"
    by (simp add: file_lines_def)
  have c: "clean_item ''12345678901234567890123456'' = ''12345678901234567890123456''"
    by (simp add: clean_item_def)
  have d: "flatten_lines [] = []"
    by (simp add: flatten_lines_def)
  show ?thesis
    using threshold_boundary[OF a] threshold_boundary[OF b] a b c d by simp
qed

text \<open>
  Claim C7, evaluated on the scenario document with two silent processes: standard
  output holds two lines, the token and then a comma, since the flattened string carries
  the line feed of the line it came from.
\<close>

theorem scenario_stdout:
  "stdout_of (fst (generateProof quiet_shell scenario_directory ''/a'')) =
     ''1234567890123456789012345'' @ [CHR 0x0A] @ '','' @ [CHR 0x0A]
   \<and> split_keepends (stdout_of (fst (generateProof quiet_shell scenario_directory ''/a''))) =
     [''1234567890123456789012345'' @ [CHR 0x0A], '','' @ [CHR 0x0A]]"
  by (simp add: generateProof_def subprocess_call_def open_file_def quiet_shell_def
      scenario_directory_def scenario_file_lines scenario_flattened)

text \<open>
  Claim C8, evaluated: with the four lines of the scenario in \<^verbatim>\<open>proof.json\<close>, the
  script prints the token, a line feed and a comma; the token directly followed by a
  comma is no part of the printed string. The printed string is the same whether the
  lines of the file end with a line feed, with a carriage return and a line feed, or
  with a carriage return.
\<close>

theorem scenario_output:
  "generateProof quiet_shell scenario_directory ''/a'' =
     ([Spawn ''node /a/generate_witness.js /a/withdraw.wasm /a/input.json /a/witness.wtns'',
       ChildOutput [], Exited 0,
       Spawn ''snarkjs groth16 prove  /a/final.zkey  /a/witness.wtns  /a/proof.json  /a/public.json'',
       ChildOutput [], Exited 0,
       OpenFile ''/a/proof.json'',
       Print (''1234567890123456789012345'' @ [CHR 0x0A] @ '','')], Returned)
   \<and> flatten_lines (file_lines (text_file [CHR 0x0D, CHR 0x0A] scenario_lines)) =
       ''1234567890123456789012345'' @ [CHR 0x0A] @ '',''
   \<and> flatten_lines (file_lines (text_file [CHR 0x0D] scenario_lines)) =
       ''1234567890123456789012345'' @ [CHR 0x0A] @ '',''
   \<and> \<not> sublist ''1234567890123456789012345,''
        (''1234567890123456789012345'' @ [CHR 0x0A] @ '','')"
proof -
  have "\<not> sublist ''1234567890123456789012345,''
        (''1234567890123456789012345'' @ [CHR 0x0A] @ '','')"
    by (simp add: sublist_Cons_right)
  then show ?thesis
    by (simp add: generateProof_def subprocess_call_def open_file_def quiet_shell_def
      scenario_directory_def generateWitnessCmd_def generateProofCmd_def
      scenario_file_lines scenario_file_lines_crlf scenario_file_lines_cr scenario_flattened)
qed

text \<open>
  Claim C9. When both processes have exited and no line of \<^verbatim>\<open>proof.json\<close> is
  longer than 25 characters, the script prints the empty string, returns normally and
  exits with status 0.
\<close>

theorem no_qualifying_line:
  assumes "sh (generateWitnessCmd p) fs = Some r1"
    and "sh (generateProofCmd p) (files_after r1) = Some r2"
    and "files_after r2 (p @ ''/proof.json'') = Some content"
    and "\<forall>l \<in> set (file_lines content). length l \<le> 25"
  shows "printed (fst (generateProof sh fs p)) = [[]]
       \<and> snd (generateProof sh fs p) = Returned
       \<and> program_exit_status (snd (generateProof sh fs p)) = Some 0"
proof -
  have "filter (\<lambda>l. 25 < length l) (file_lines content) = []"
    using assms(4) by (auto simp: filter_empty_conv)
  then have "flatten_lines (file_lines content) = []"
    by (simp add: flatten_lines_def flatten_loop_concat)
  then show ?thesis
    using assms(1-3) by (simp add: generateProof_run)
qed

theorem no_qualifying_line_witness:
  "quiet_shell (generateWitnessCmd ''/a'') short_directory
     = Some \<lparr>exit_code = 0, child_stdout = [], files_after = short_directory\<rparr>
   \<and> quiet_shell (generateProofCmd ''/a'') short_directory
     = Some \<lparr>exit_code = 0, child_stdout = [], files_after = short_directory\<rparr>
   \<and> list_all (\<lambda>l. length l \<le> 25)
        (file_lines (text_file [CHR 0x0A]
           [''{'', '' '' @ quoted ''protocol'' @ '': '' @ quoted ''groth16'', ''}'']))
   \<and> printed (fst (generateProof quiet_shell short_directory ''/a'')) = [[]]
   \<and> snd (generateProof quiet_shell short_directory ''/a'') = Returned
   \<and> program_exit_status (snd (generateProof quiet_shell short_directory ''/a'')) = Some 0"
proof -
  let ?r = "\<lparr>exit_code = 0, child_stdout = [], files_after = short_directory\<rparr>"
  let ?doc = "text_file [CHR 0x0A]
    [''{'', '' '' @ quoted ''protocol'' @ '': '' @ quoted ''groth16'', ''}'']"
  have a: "quiet_shell (generateWitnessCmd ''/a'') short_directory = Some ?r"
    by (simp add: quiet_shell_def)
  have b: "quiet_shell (generateProofCmd ''/a'') (files_after ?r) = Some ?r"
    by (simp add: quiet_shell_def)
  have c: "files_after ?r (''/a'' @ ''/proof.json'') = Some ?doc"
    by (simp add: short_directory_def)
  have d: "\<forall>l \<in> set (file_lines ?doc). length l \<le> 25"
    by (simp add: text_file_def quoted_def file_lines_def)
  show ?thesis
    using no_qualifying_line[OF a b c d] a b d by (simp add: list_all_iff)
qed

text \<open>
  Claim C10. Whatever the shell and the files, the first command a run starts is
  \<^verbatim>\<open>node\<close> applied to \<^verbatim>\<open>generate_witness.js\<close> in the artefact directory, followed
  by the paths of the circuit, the input and the witness in that directory; and that
  script is none of the six files of the file-system contract.
\<close>

theorem witness_command:
  "(\<exists>rest. fst (generateProof sh fs p) =
      Spawn (''node '' @ (p @ ''/generate_witness.js'') @ '' '' @ (p @ ''/withdraw.wasm'') @ '' ''
               @ (p @ ''/input.json'') @ '' '' @ (p @ ''/witness.wtns'')) # rest)
   \<and> p @ ''/generate_witness.js'' \<notin>
        {p @ ''/withdraw.wasm'', p @ ''/input.json'', p @ ''/witness.wtns'',
         p @ ''/final.zkey'', p @ ''/proof.json'', p @ ''/public.json''}"
  by (cases rule: generateProof_cases[of sh p fs])
     (simp_all add: generateProof_blocked_first generateProof_blocked_second generateProof_run
        generateWitnessCmd_def split: option.splits)

end
